theory Spec2Isabelle
  imports Main "HOL-Library.Sublist"
begin

section \<open>Values, exceptions and the parameter store\<close>

text \<open>
  The exceptions the two scripts can meet. \<open>OtherError\<close> stands for whatever a device
  driver, the network client or a shell command raises (every handler of the source is
  \<^verbatim>\<open>except BaseException\<close>, so the class never matters to a handler).
\<close>

datatype exn =
  KeyError | TypeError | AttributeError | AssertionError | ValueError
  | OverflowError | EOFError | FileNotFoundError | OtherError string

text \<open>
  A value of the parameter file: the store is flat, a key maps to a string or to
  \<^verbatim>\<open>None\<close> (a parameter that has not been filled in yet).
\<close>

datatype pval = PNone | PStr string

text \<open>Python truthiness of a parameter value: \<^verbatim>\<open>None\<close> and \<^verbatim>\<open>""\<close> are falsy.\<close>

fun truthy :: "pval \<Rightarrow> bool" where
  "truthy PNone = False"
| "truthy (PStr s) = (s \<noteq> [])"

text \<open>
  The dictionary returned by \<^verbatim>\<open>params.load_params_file()\<close>, in insertion order. The
  loader is not part of the sources; its outcome (an exception or a dictionary) is an
  input of every probe.
\<close>

type_synonym pardict = "(string \<times> pval) list"

type_synonym load_result = "exn + pardict"

text \<open>
  \<^verbatim>\<open>_grep_param_dict\<close> returns either a dictionary or, when exactly one key matched, the
  bare value of that key.
\<close>

datatype gres = GDict pardict | GVal pval

text \<open>
  \<^verbatim>\<open>out = {k: pardict[k] for k in pardict if pattern in k}\<close>; \<^verbatim>\<open>pattern in k\<close> on
  strings is the contiguous-substring test, \<^const>\<open>sublist\<close>.
\<close>

definition grep_param_dict :: "load_result \<Rightarrow> string \<Rightarrow> exn + gres" where
  "grep_param_dict load pattern =
     (case load of
        Inl e \<Rightarrow> Inl e
      | Inr pardict \<Rightarrow>
          (let out = filter (\<lambda>kv. sublist pattern (fst kv)) pardict
           in if length out = 1 then Inr (GVal (snd (hd out))) else Inr (GDict out)))"

text \<open>\<^verbatim>\<open>x in r\<close> for a result of \<^verbatim>\<open>_grep_param_dict\<close>: key membership on a dictionary,
  substring on a string, \<^verbatim>\<open>TypeError\<close> on \<^verbatim>\<open>None\<close>.\<close>

fun py_in :: "string \<Rightarrow> gres \<Rightarrow> exn + bool" where
  "py_in x (GDict d) = Inr (x \<in> set (map fst d))"
| "py_in x (GVal (PStr s)) = Inr (sublist x s)"
| "py_in x (GVal PNone) = Inl TypeError"

text \<open>\<^verbatim>\<open>r[key]\<close> for a result of \<^verbatim>\<open>_grep_param_dict\<close>: \<^verbatim>\<open>KeyError\<close> on a dictionary
  without the key, \<^verbatim>\<open>TypeError\<close> on a string (string indices must be integers) and on
  \<^verbatim>\<open>None\<close>.\<close>

fun getitem :: "gres \<Rightarrow> string \<Rightarrow> exn + pval" where
  "getitem (GDict d) key = (case map_of d key of None \<Rightarrow> Inl KeyError | Some v \<Rightarrow> Inr v)"
| "getitem (GVal v) key = Inl TypeError"

text \<open>\<^verbatim>\<open>ephys_rig = 'ephys' in _grep_param_dict("NAME")\<close>, the first statement of
  \<^verbatim>\<open>bpod_modules_ok\<close>, \<^verbatim>\<open>xonar_ok\<close> and \<^verbatim>\<open>HarpSoundCard_ok\<close>.\<close>

definition ephys_rig :: "load_result \<Rightarrow> exn + bool" where
  "ephys_rig load =
     (case grep_param_dict load ''NAME'' of
        Inl e \<Rightarrow> Inl e
      | Inr r \<Rightarrow> py_in ''ephys'' r)"

section \<open>Calendar dates\<close>

record date =
  year :: nat
  month :: nat
  day :: nat

definition mk_date :: "nat \<Rightarrow> nat \<Rightarrow> nat \<Rightarrow> date" where
  "mk_date y m d = \<lparr>year = y, month = m, day = d\<rparr>"

definition isleap :: "nat \<Rightarrow> bool" where
  "isleap y = (if y mod 400 = 0 then True else if y mod 100 = 0 then False else y mod 4 = 0)"

definition days_in_month :: "nat \<Rightarrow> nat \<Rightarrow> nat" where
  "days_in_month y m =
     (if m = 2 then (if isleap y then 29 else 28)
      else if m = 4 \<or> m = 6 \<or> m = 9 \<or> m = 11 then 30 else 31)"

definition valid_date :: "date \<Rightarrow> bool" where
  "valid_date d =
     (1 \<le> year d \<and> year d \<le> 9999 \<and> 1 \<le> month d \<and> month d \<le> 12
      \<and> 1 \<le> day d \<and> day d \<le> days_in_month (year d) (month d))"

text \<open>\<^verbatim>\<open>a < b\<close> on dates compares year, month and day in that order.\<close>

definition date_less :: "date \<Rightarrow> date \<Rightarrow> bool" where
  "date_less a b =
     (year a < year b
      \<or> (year a = year b \<and> (month a < month b \<or> (month a = month b \<and> day a < day b))))"

definition next_day :: "date \<Rightarrow> date" where
  "next_day d =
     (if day d < days_in_month (year d) (month d) then d\<lparr>day := day d + 1\<rparr>
      else if month d < 12 then d\<lparr>month := month d + 1, day := 1\<rparr>
      else \<lparr>year = year d + 1, month = 1, day = 1\<rparr>)"

fun plus_days :: "nat \<Rightarrow> date \<Rightarrow> date" where
  "plus_days 0 d = d"
| "plus_days (Suc n) d = plus_days n (next_day d)"

text \<open>\<^verbatim>\<open>date + datetime.timedelta(days=n)\<close>: the date \<open>n\<close> days later, \<^verbatim>\<open>OverflowError\<close>
  past the year 9999.\<close>

definition add_timedelta :: "date \<Rightarrow> nat \<Rightarrow> exn + date" where
  "add_timedelta d n =
     (let r = plus_days n d in if year r > 9999 then Inl OverflowError else Inr r)"

text \<open>
  \<^verbatim>\<open>date + relativedelta(months=n)\<close> for \<open>1 \<le> n \<le> 12\<close>: the month is advanced, the
  year carried once, and the day clipped to the length of the target month;
  \<^verbatim>\<open>date.replace\<close> raises \<^verbatim>\<open>ValueError\<close> past the year 9999.
\<close>

definition add_relativedelta :: "date \<Rightarrow> nat \<Rightarrow> exn + date" where
  "add_relativedelta d n =
     (let m0 = month d + n;
          y = (if m0 > 12 then year d + 1 else year d);
          m = (if m0 > 12 then m0 - 12 else m0);
          dd = min (days_in_month y m) (day d)
      in if y > 9999 then Inl ValueError else Inr \<lparr>year = y, month = m, day = dd\<rparr>)"

datatype delta = Timedelta_days nat | Relativedelta_months nat

fun date_add :: "date \<Rightarrow> delta \<Rightarrow> exn + date" where
  "date_add d (Timedelta_days n) = add_timedelta d n"
| "date_add d (Relativedelta_months n) = add_relativedelta d n"

section \<open>Parsing a date\<close>

text \<open>
  \<^verbatim>\<open>datetime.datetime.strptime(v, "%Y-%m-%d").date()\<close> on an ASCII string: four digits,
  a dash, a month written \<^verbatim>\<open>1[0-2]|0[1-9]|[1-9]\<close>, a dash, a day written
  \<^verbatim>\<open>3[01]|[12]\d|0[1-9]|[1-9]| [1-9]\<close>, nothing after it, and the three numbers a
  date of the calendar. \<open>None\<close> stands for the \<^verbatim>\<open>ValueError\<close> it raises otherwise. The
  calibration check takes the parser as a parameter; this one is the instance used on
  concrete stores.
\<close>

definition digit_val :: "char \<Rightarrow> nat option" where
  "digit_val c =
     (let n = (of_char c :: nat) in if 48 \<le> n \<and> n \<le> 57 then Some (n - 48) else None)"

fun digits_val :: "string \<Rightarrow> nat option" where
  "digits_val [] = None"
| "digits_val [c] = digit_val c"
| "digits_val cs =
     (case (digits_val (butlast cs), digit_val (last cs)) of
        (Some hi, Some lo) \<Rightarrow> Some (10 * hi + lo)
      | _ \<Rightarrow> None)"

definition month_field :: "string \<Rightarrow> nat option" where
  "month_field s =
     (case digits_val s of
        None \<Rightarrow> None
      | Some m \<Rightarrow> if length s \<le> 2 \<and> 1 \<le> m \<and> m \<le> 12 then Some m else None)"

definition day_field :: "string \<Rightarrow> nat option" where
  "day_field s =
     (let t = (if length s = 2 \<and> take 1 s = '' '' then drop 1 s else s)
      in case digits_val t of
           None \<Rightarrow> None
         | Some d \<Rightarrow> if length t \<le> 2 \<and> 1 \<le> d \<and> d \<le> 31 then Some d else None)"

definition strptime_ymd :: "string \<Rightarrow> date option" where
  "strptime_ymd s =
     (let ys = take 4 s; r1 = drop 4 s;
          ms = takeWhile (\<lambda>c. c \<noteq> CHR ''-'') (drop 1 r1);
          r2 = dropWhile (\<lambda>c. c \<noteq> CHR ''-'') (drop 1 r1);
          ds = drop 1 r2
      in if length ys = 4 \<and> take 1 r1 = ''-'' \<and> take 1 r2 = ''-'' then
           (case (digits_val ys, month_field ms, day_field ds) of
              (Some y, Some m, Some d) \<Rightarrow>
                if valid_date (mk_date y m d) then Some (mk_date y m d) else None
            | _ \<Rightarrow> None)
         else None)"

section \<open>The calibration freshness check\<close>

text \<open>The table \<^verbatim>\<open>thresh\<close> of \<^verbatim>\<open>calibration_dates_ok\<close>.\<close>

definition thresh :: "(string \<times> delta) list" where
  "thresh =
     [(''F2TTL_CALIBRATION_DATE'', Timedelta_days 7),
      (''SCREEN_FREQ_TEST_DATE'', Relativedelta_months 4),
      (''SCREEN_LUX_DATE'', Relativedelta_months 4),
      (''WATER_CALIBRATION_DATE'', Relativedelta_months 1),
      (''BPOD_TTL_TEST_DATE'', Relativedelta_months 4)]"

text \<open>The two warnings the function logs.\<close>

datatype cal_warning = Not_all_dates_present | Outdated_calibrations "string list"

text \<open>
  \<^verbatim>\<open>subdict = {k: strptime(v, "%Y-%m-%d").date() for k, v in subdict.items()}\<close>: the
  first value that does not parse raises.
\<close>

fun parse_dates :: "(string \<Rightarrow> date option) \<Rightarrow> pardict \<Rightarrow> exn + (string \<times> date) list" where
  "parse_dates strptime [] = Inr []"
| "parse_dates strptime ((k, PNone) # kvs) = Inl TypeError"
| "parse_dates strptime ((k, PStr s) # kvs) =
     (case strptime s of
        None \<Rightarrow> Inl ValueError
      | Some d \<Rightarrow>
          (case parse_dates strptime kvs of
             Inl e \<Rightarrow> Inl e
           | Inr r \<Rightarrow> Inr ((k, d) # r)))"

text \<open>\<^verbatim>\<open>for k in subdict: out[k] = subdict[k] + thresh[k] < today\<close>. An entry of \<open>out\<close>
  is \<^verbatim>\<open>None\<close> (from \<^verbatim>\<open>dict.fromkeys\<close>) or a boolean.\<close>

fun compare_dates :: "date \<Rightarrow> (string \<times> date) list \<Rightarrow> exn + (string \<times> bool option) list" where
  "compare_dates today [] = Inr []"
| "compare_dates today ((k, d) # kds) =
     (case map_of thresh k of
        None \<Rightarrow> Inl KeyError
      | Some th \<Rightarrow>
          (case date_add d th of
             Inl e \<Rightarrow> Inl e
           | Inr r \<Rightarrow>
               (case compare_dates today kds of
                  Inl e \<Rightarrow> Inl e
                | Inr out \<Rightarrow> Inr ((k, Some (date_less r today)) # out))))"

text \<open>The last three lines: \<^verbatim>\<open>all(out.values())\<close>, with the warning that lists the
  keys whose entry is not true.\<close>

definition report :: "cal_warning list \<Rightarrow> (string \<times> bool option) list \<Rightarrow> bool \<times> cal_warning list" where
  "report ws out =
     (let ok = list_all (\<lambda>kv. snd kv = Some True) out
      in (ok, if ok then ws
              else ws @ [Outdated_calibrations (map fst (filter (\<lambda>kv. snd kv \<noteq> Some True) out))]))"

text \<open>
  \<^verbatim>\<open>calibration_dates_ok\<close>. \<^verbatim>\<open>dict.fromkeys(subdict)\<close> raises \<^verbatim>\<open>TypeError\<close>
  when \<^verbatim>\<open>_grep_param_dict\<close> returned \<^verbatim>\<open>None\<close>, and \<^verbatim>\<open>subdict.keys()\<close> raises
  \<^verbatim>\<open>AttributeError\<close> when it returned a string. The parser and today's date
  (\<^verbatim>\<open>datetime.datetime.now().date()\<close>) are parameters.
\<close>

definition calibration_dates_ok ::
  "(string \<Rightarrow> date option) \<Rightarrow> date \<Rightarrow> load_result \<Rightarrow> exn + bool \<times> cal_warning list" where
  "calibration_dates_ok strptime today load =
     (case grep_param_dict load ''DATE'' of
        Inl e \<Rightarrow> Inl e
      | Inr (GVal PNone) \<Rightarrow> Inl TypeError
      | Inr (GVal (PStr s)) \<Rightarrow> Inl AttributeError
      | Inr (GDict subdict) \<Rightarrow>
          if set (map fst thresh) \<noteq> set (map fst subdict) then Inl AssertionError
          else if \<not> list_all (\<lambda>kv. truthy (snd kv)) subdict then
            Inr (report [Not_all_dates_present] (map (\<lambda>kv. (fst kv, None)) subdict))
          else
            (case parse_dates strptime subdict of
               Inl e \<Rightarrow> Inl e
             | Inr ds \<Rightarrow>
                 (case compare_dates today ds of
                    Inl e \<Rightarrow> Inl e
                  | Inr out \<Rightarrow> Inr (report [] out))))"

section \<open>Concrete stores\<close>

text \<open>A store with one key that contains \<^verbatim>\<open>NAME\<close> and two that contain \<^verbatim>\<open>COM\<close>.\<close>

definition example_store :: pardict where
  "example_store =
     [(''NAME'', PStr ''_iblrig_ephys_0''),
      (''COM_BPOD'', PStr ''COM3''),
      (''COM_F2TTL'', PStr ''COM4'')]"

text \<open>A store with the five calibration dates, between a name and a port.\<close>

definition dated_store :: "pval \<Rightarrow> pval \<Rightarrow> pval \<Rightarrow> pval \<Rightarrow> pval \<Rightarrow> pardict" where
  "dated_store f2ttl freq lux water ttl =
     [(''NAME'', PStr ''_iblrig_test_rig''),
      (''F2TTL_CALIBRATION_DATE'', f2ttl),
      (''SCREEN_FREQ_TEST_DATE'', freq),
      (''SCREEN_LUX_DATE'', lux),
      (''WATER_CALIBRATION_DATE'', water),
      (''BPOD_TTL_TEST_DATE'', ttl),
      (''COM_BPOD'', PStr ''COM3'')]"

text \<open>A store with a single calibration date.\<close>

definition one_date_store :: pardict where
  "one_date_store =
     [(''NAME'', PStr ''_iblrig_test_rig''),
      (''F2TTL_CALIBRATION_DATE'', PStr ''2021-06-15''),
      (''COM_BPOD'', PStr ''COM3'')]"

section \<open>Connectivity and hardware probes\<close>

text \<open>
  The outcome of a call into a device driver, the network client or the file system:
  \<open>None\<close> when it returns, \<open>Some e\<close> when it raises \<open>e\<close>. The drivers are not part
  of the sources, so the outcomes of their calls are inputs of the probes.
\<close>

type_synonym outcome = "exn option"

text \<open>
  What has become of the device object a probe binds: none was created, it is open, or
  the probe has closed it. A constructor that raises binds no object; a \<^verbatim>\<open>close()\<close>
  that raises leaves the object open.
\<close>

datatype handle = No_handle | Handle_open | Handle_closed


text \<open>
  \<^verbatim>\<open>Path(pars[key])\<close>: the lookup may raise, and \<^verbatim>\<open>Path(None)\<close> raises
  \<^verbatim>\<open>TypeError\<close>.
\<close>

definition path_of :: "gres \<Rightarrow> string \<Rightarrow> exn + string" where
  "path_of pars key =
     (case getitem pars key of
        Inl e \<Rightarrow> Inl e
      | Inr PNone \<Rightarrow> Inl TypeError
      | Inr (PStr p) \<Rightarrow> Inr p)"


definition rig_data_folder_ok :: "load_result \<Rightarrow> (string \<Rightarrow> exn + bool) \<Rightarrow> exn + bool" where
  "rig_data_folder_ok load path_exists =
     (case grep_param_dict load [] of
        Inl e \<Rightarrow> Inl e
      | Inr pars \<Rightarrow>
          (case path_of pars ''DATA_FOLDER_LOCAL'' of
             Inl e \<Rightarrow> Inl e
           | Inr p \<Rightarrow> path_exists p))"







text \<open>
  The body of the \<^verbatim>\<open>try\<close> of \<^verbatim>\<open>rotary_encoder_ok\<close>: the lookup, the constructor,
  \<^verbatim>\<open>set_zero_position()\<close>, \<^verbatim>\<open>close()\<close>. It returns the exception that cut it short, if
  any, and the state of the handle.
\<close>

definition rotary_encoder_body ::
  "load_result \<Rightarrow> (pval \<Rightarrow> outcome) \<Rightarrow> outcome \<Rightarrow> outcome \<Rightarrow> outcome \<times> handle" where
  "rotary_encoder_body load re_open set_zero_position re_close =
     (case grep_param_dict load [] of
        Inl e \<Rightarrow> (Some e, No_handle)
      | Inr pars \<Rightarrow>
          (case getitem pars ''COM_ROTARY_ENCODER'' of
             Inl e \<Rightarrow> (Some e, No_handle)
           | Inr port \<Rightarrow>
               (case re_open port of
                  Some e \<Rightarrow> (Some e, No_handle)
                | None \<Rightarrow>
                    (case set_zero_position of
                       Some e \<Rightarrow> (Some e, Handle_open)
                     | None \<Rightarrow>
                         (case re_close of
                            Some e \<Rightarrow> (Some e, Handle_open)
                          | None \<Rightarrow> (None, Handle_closed))))))"

text \<open>\<^verbatim>\<open>rotary_encoder_ok\<close>: \<^verbatim>\<open>out = True\<close> at the end of the body, \<^verbatim>\<open>out = False\<close>
  in the handler.\<close>

definition rotary_encoder_ok ::
  "load_result \<Rightarrow> (pval \<Rightarrow> outcome) \<Rightarrow> outcome \<Rightarrow> outcome \<Rightarrow> (exn + bool) \<times> handle" where
  "rotary_encoder_ok load re_open set_zero_position re_close =
     (case rotary_encoder_body load re_open set_zero_position re_close of
        (None, h) \<Rightarrow> (Inr True, h)
      | (Some e, h) \<Rightarrow> (Inr False, h))"

text \<open>The body of the \<^verbatim>\<open>try\<close> of \<^verbatim>\<open>bpod_ok\<close>: the lookup, \<^verbatim>\<open>serial.Serial\<close>, two
  writes, \<^verbatim>\<open>close()\<close>.\<close>

definition bpod_body ::
  "load_result \<Rightarrow> (pval \<Rightarrow> outcome) \<Rightarrow> outcome \<Rightarrow> outcome \<Rightarrow> outcome \<Rightarrow> outcome \<times> handle" where
  "bpod_body load serial_open write0 write1 serial_close =
     (case grep_param_dict load [] of
        Inl e \<Rightarrow> (Some e, No_handle)
      | Inr pars \<Rightarrow>
          (case getitem pars ''COM_BPOD'' of
             Inl e \<Rightarrow> (Some e, No_handle)
           | Inr port \<Rightarrow>
               (case serial_open port of
                  Some e \<Rightarrow> (Some e, No_handle)
                | None \<Rightarrow>
                    (case write0 of
                       Some e \<Rightarrow> (Some e, Handle_open)
                     | None \<Rightarrow>
                         (case write1 of
                            Some e \<Rightarrow> (Some e, Handle_open)
                          | None \<Rightarrow>
                              (case serial_close of
                                 Some e \<Rightarrow> (Some e, Handle_open)
                               | None \<Rightarrow> (None, Handle_closed)))))))"

text \<open>\<^verbatim>\<open>bpod_ok\<close>: \<^verbatim>\<open>out = False\<close> before the \<^verbatim>\<open>try\<close>, \<^verbatim>\<open>out = True\<close> at the end
  of the body.\<close>

definition bpod_ok ::
  "load_result \<Rightarrow> (pval \<Rightarrow> outcome) \<Rightarrow> outcome \<Rightarrow> outcome \<Rightarrow> outcome \<Rightarrow> (exn + bool) \<times> handle" where
  "bpod_ok load serial_open write0 write1 serial_close =
     (case bpod_body load serial_open write0 write1 serial_close of
        (None, h) \<Rightarrow> (Inr True, h)
      | (Some e, h) \<Rightarrow> (Inr False, h))"

text \<open>
  \<^verbatim>\<open>f2ttl_ok\<close>: \<^verbatim>\<open>out = f.ser.isOpen()\<close> is assigned before \<^verbatim>\<open>f.close()\<close>, so an
  exception of \<^verbatim>\<open>close\<close> leaves the value of \<^verbatim>\<open>isOpen\<close> in \<^verbatim>\<open>out\<close>.
\<close>

definition f2ttl_ok ::
  "load_result \<Rightarrow> (pval \<Rightarrow> outcome) \<Rightarrow> exn + bool \<Rightarrow> outcome \<Rightarrow> (exn + bool) \<times> handle" where
  "f2ttl_ok load f2ttl_open is_open f2ttl_close =
     (case grep_param_dict load [] of
        Inl e \<Rightarrow> (Inr False, No_handle)
      | Inr pars \<Rightarrow>
          (case getitem pars ''COM_F2TTL'' of
             Inl e \<Rightarrow> (Inr False, No_handle)
           | Inr port \<Rightarrow>
               (case f2ttl_open port of
                  Some e \<Rightarrow> (Inr False, No_handle)
                | None \<Rightarrow>
                    (case is_open of
                       Inl e \<Rightarrow> (Inr False, Handle_open)
                     | Inr out \<Rightarrow>
                         (case f2ttl_close of
                            Some e \<Rightarrow> (Inr out, Handle_open)
                          | None \<Rightarrow> (Inr out, Handle_closed))))))"

text \<open>The modules \<^verbatim>\<open>bpod_modules_ok\<close> expects.\<close>

definition expected_modules :: "bool \<Rightarrow> string list" where
  "expected_modules ephys =
     (if ephys then [''RotaryEncoder1'', ''AmbientModule1'', ''SoundCard1'']
      else [''RotaryEncoder1'', ''AmbientModule1''])"

text \<open>
  The body of the \<^verbatim>\<open>try\<close> of \<^verbatim>\<open>bpod_modules_ok\<close>: \<^verbatim>\<open>_grep_param_dict("COM_BPOD")\<close>,
  the \<^verbatim>\<open>Bpod\<close> constructor, the names of \<^verbatim>\<open>bpod.modules\<close>, \<^verbatim>\<open>close()\<close>, and the
  comparison with the expected modules.
\<close>

definition bpod_modules_body ::
  "bool \<Rightarrow> load_result \<Rightarrow> (gres \<Rightarrow> outcome) \<Rightarrow> exn + string list \<Rightarrow> outcome
     \<Rightarrow> (exn + bool) \<times> handle" where
  "bpod_modules_body ephys load bpod_open modules bpod_close =
     (case grep_param_dict load ''COM_BPOD'' of
        Inl e \<Rightarrow> (Inl e, No_handle)
      | Inr comport \<Rightarrow>
          (case bpod_open comport of
             Some e \<Rightarrow> (Inl e, No_handle)
           | None \<Rightarrow>
               (case modules of
                  Inl e \<Rightarrow> (Inl e, Handle_open)
                | Inr mods \<Rightarrow>
                    (case bpod_close of
                       Some e \<Rightarrow> (Inl e, Handle_open)
                     | None \<Rightarrow>
                         (Inr (list_all (\<lambda>x. x \<in> set mods) (expected_modules ephys)),
                          Handle_closed)))))"

text \<open>\<^verbatim>\<open>bpod_modules_ok\<close>; the test of the rig name comes before the \<^verbatim>\<open>try\<close>.\<close>

definition bpod_modules_ok ::
  "load_result \<Rightarrow> (gres \<Rightarrow> outcome) \<Rightarrow> exn + string list \<Rightarrow> outcome
     \<Rightarrow> (exn + bool) \<times> handle" where
  "bpod_modules_ok load bpod_open modules bpod_close =
     (case ephys_rig load of
        Inl e \<Rightarrow> (Inl e, No_handle)
      | Inr ephys \<Rightarrow>
          (case bpod_modules_body ephys load bpod_open modules bpod_close of
             (Inl e, h) \<Rightarrow> (Inr False, h)
           | (Inr out, h) \<Rightarrow> (Inr out, h)))"

text \<open>A store with the ports and folders of a rig.\<close>

definition rig_store :: pardict where
  "rig_store =
     [(''NAME'', PStr ''_iblrig_test_rig''),
      (''COM_BPOD'', PStr ''COM3''),
      (''COM_F2TTL'', PStr ''COM4''),
      (''COM_ROTARY_ENCODER'', PStr ''COM5''),
      (''DATA_FOLDER_LOCAL'', PStr ''C:/iblrig_data''),
      (''DATA_FOLDER_REMOTE'', PStr ''Y:/'')]"

section \<open>The installer\<close>

text \<open>
  The shell commands and file operations of \<^verbatim>\<open>install.py\<close>. The package manager of a
  command is the value of the variable \<^verbatim>\<open>conda\<close>: \<^verbatim>\<open>'mamba'\<close> or \<^verbatim>\<open>'conda'\<close>.
\<close>

datatype tool = Mamba | Conda

datatype cmd =
    Install_mamba | Clean_cache | Update_python tool | Update_conda tool | Upgrade_pip tool
  | Install_git tool | Update_remaining tool
  | Env_create_yaml | Env_remove string | Rmtree string | Env_create string
  | Conda_env_list | Pip_install string | Setup_default_config string | Mkdir_params
  | Chdir_bonsai | Setup_bat | Chdir_back

text \<open>
  What the installer sees of the machine and leaves on it: the environment folders that
  \<^verbatim>\<open>conda env list\<close> reports, whether \<^verbatim>\<open>../iblrig_params\<close> exists, the lines still to
  be read by \<^verbatim>\<open>input()\<close>, the number of prompts printed, and the commands run so far.
\<close>

record world =
  envs :: "string list"
  params_dir :: bool
  stdin :: "string list"
  asked :: nat
  ran :: "cmd list"

text \<open>
  \<^verbatim>\<open>pat = re.compile(f"^.+{env_name}$")\<close>, \<^verbatim>\<open>pat.match(x)\<close>: the folder ends with the
  name and has at least one character before it (for a name without regular-expression
  operators and a folder without line breaks).
\<close>

definition env_matches :: "string \<Rightarrow> string \<Rightarrow> bool" where
  "env_matches env_name x = (suffix env_name x \<and> length env_name < length x)"






text \<open>\<^verbatim>\<open>get_env_folder\<close>: the first listed folder that matches, or \<^verbatim>\<open>None\<close>;
  \<^verbatim>\<open>subprocess.check_output\<close> may raise.\<close>

definition get_env_folder :: "(cmd \<Rightarrow> outcome) \<Rightarrow> string \<Rightarrow> world \<Rightarrow> exn + string option" where
  "get_env_folder raises env_name w =
     (case raises Conda_env_list of
        Some e \<Rightarrow> Inl e
      | None \<Rightarrow>
          (case filter (env_matches env_name) (envs w) of
             [] \<Rightarrow> Inr None
           | x # xs \<Rightarrow> Inr (Some x)))"







text \<open>The command-line arguments \<^verbatim>\<open>main\<close> reads.\<close>

record args =
  env_name :: string
  use_conda :: bool
  reinstall_response :: "string option"
  config_response :: "string option"
  bonsai_response :: "string option"









section \<open>Theorems\<close>

lemma grep_param_dict_load_error: "grep_param_dict (Inl e) pat = Inl e"
  by (simp add: grep_param_dict_def)

subsection \<open>The parameter filter\<close>

lemma example_store_COM:
  "filter (\<lambda>kv. sublist ''COM'' (fst kv)) example_store =
     [(''COM_BPOD'', PStr ''COM3''), (''COM_F2TTL'', PStr ''COM4'')]"
  by (simp add: example_store_def sublist_Cons_right)

lemma example_store_NAME:
  "filter (\<lambda>kv. sublist ''NAME'' (fst kv)) example_store = [(''NAME'', PStr ''_iblrig_ephys_0'')]"
  by (simp add: example_store_def sublist_Cons_right)

lemma ephys_in_example_name: "sublist ''ephys'' ''_iblrig_ephys_0''"
  by (simp add: sublist_Cons_right)

text \<open>
  Claim C10. Let \<open>ms\<close> be the entries of the store whose key contains the pattern. They
  are exactly the entries \<open>(k, v)\<close> with \<open>k = pre @ pat @ suf\<close>. When their number is
  not one, \<^verbatim>\<open>_grep_param_dict\<close> returns the dictionary \<open>ms\<close>; when \<open>ms\<close> is a single
  entry, it returns the bare value of that entry. Hence the test
  \<^verbatim>\<open>'ephys' in _grep_param_dict("NAME")\<close> is the substring test on the value when one
  key contains \<^verbatim>\<open>NAME\<close> and that value is a string, and key membership in the matched
  dictionary otherwise.
\<close>

theorem grep_param_dict_one_or_many:
  assumes "ms = filter (\<lambda>kv. sublist pat (fst kv)) pd"
      and "ns = filter (\<lambda>kv. sublist ''NAME'' (fst kv)) pd"
  shows "set ms = {kv \<in> set pd. \<exists>pre suf. fst kv = pre @ pat @ suf}
       \<and> (length ms \<noteq> 1 \<longrightarrow> grep_param_dict (Inr pd) pat = Inr (GDict ms))
       \<and> (\<forall>k v. ms = [(k, v)] \<longrightarrow> grep_param_dict (Inr pd) pat = Inr (GVal v))
       \<and> (\<forall>k s. ns = [(k, PStr s)] \<longrightarrow> ephys_rig (Inr pd) = Inr (sublist ''ephys'' s))
       \<and> (length ns \<noteq> 1 \<longrightarrow> ephys_rig (Inr pd) = Inr (''ephys'' \<in> fst ` set ns))"
  using assms by (auto simp: grep_param_dict_def ephys_rig_def sublist_def)

theorem grep_param_dict_one_or_many_witness:
  "grep_param_dict (Inr example_store) ''COM''
     = Inr (GDict [(''COM_BPOD'', PStr ''COM3''), (''COM_F2TTL'', PStr ''COM4'')])
   \<and> grep_param_dict (Inr example_store) ''NAME'' = Inr (GVal (PStr ''_iblrig_ephys_0''))
   \<and> ephys_rig (Inr example_store) = Inr True"
  using grep_param_dict_one_or_many [OF example_store_COM [symmetric] example_store_NAME [symmetric]]
        grep_param_dict_one_or_many [OF example_store_NAME [symmetric] example_store_NAME [symmetric]]
  by (simp add: ephys_in_example_name)

subsection \<open>Evaluating dates\<close>

lemma plus_days_numeral: "plus_days (numeral n) d = plus_days (pred_numeral n) (next_day d)"
  by (simp add: numeral_eq_Suc)

lemmas date_eval = strptime_ymd_def month_field_def day_field_def digit_val_def valid_date_def
  mk_date_def days_in_month_def isleap_def add_timedelta_def add_relativedelta_def
  date_less_def next_day_def plus_days_numeral

lemma thresh_names:
  "map fst thresh =
     [''F2TTL_CALIBRATION_DATE'', ''SCREEN_FREQ_TEST_DATE'', ''SCREEN_LUX_DATE'',
      ''WATER_CALIBRATION_DATE'', ''BPOD_TTL_TEST_DATE'']"
  by (simp add: thresh_def)

lemma thresh_keys:
  "map_of thresh ''F2TTL_CALIBRATION_DATE'' = Some (Timedelta_days 7)"
  "map_of thresh ''SCREEN_FREQ_TEST_DATE'' = Some (Relativedelta_months 4)"
  "map_of thresh ''SCREEN_LUX_DATE'' = Some (Relativedelta_months 4)"
  "map_of thresh ''WATER_CALIBRATION_DATE'' = Some (Relativedelta_months (Suc 0))"
  "map_of thresh ''BPOD_TTL_TEST_DATE'' = Some (Relativedelta_months 4)"
  by (simp_all add: thresh_def)

lemma dated_store_DATE:
  "filter (\<lambda>kv. sublist ''DATE'' (fst kv)) (dated_store a b c d e) =
     [(''F2TTL_CALIBRATION_DATE'', a), (''SCREEN_FREQ_TEST_DATE'', b),
      (''SCREEN_LUX_DATE'', c), (''WATER_CALIBRATION_DATE'', d),
      (''BPOD_TTL_TEST_DATE'', e)]"
  by (simp add: dated_store_def sublist_Cons_right)

lemma dated_store_grep:
  "grep_param_dict (Inr (dated_store a b c d e)) ''DATE'' =
     Inr (GDict [(''F2TTL_CALIBRATION_DATE'', a), (''SCREEN_FREQ_TEST_DATE'', b),
                 (''SCREEN_LUX_DATE'', c), (''WATER_CALIBRATION_DATE'', d),
                 (''BPOD_TTL_TEST_DATE'', e)])"
  by (simp add: grep_param_dict_def dated_store_DATE)

lemma one_date_store_DATE:
  "filter (\<lambda>kv. sublist ''DATE'' (fst kv)) one_date_store =
     [(''F2TTL_CALIBRATION_DATE'', PStr ''2021-06-15'')]"
  by (simp add: one_date_store_def sublist_Cons_right)

lemma example_store_DATE: "filter (\<lambda>kv. sublist ''DATE'' (fst kv)) example_store = []"
  by (simp add: example_store_def sublist_Cons_right)

lemma parse_2021_06_15: "strptime_ymd ''2021-06-15'' = Some (mk_date 2021 6 15)"
  by (simp add: date_eval)
lemma parse_2020_08_12: "strptime_ymd ''2020-08-12'' = Some (mk_date 2020 8 12)"
  by (simp add: date_eval)
lemma parse_2020_04_19: "strptime_ymd ''2020-04-19'' = Some (mk_date 2020 4 19)"
  by (simp add: date_eval)
lemma parse_2020_07_19: "strptime_ymd ''2020-07-19'' = Some (mk_date 2020 7 19)"
  by (simp add: date_eval)
lemma parse_2020_08_11: "strptime_ymd ''2020-08-11'' = Some (mk_date 2020 8 11)"
  by (simp add: date_eval)
lemma parse_2020_03_19: "strptime_ymd ''2020-03-19'' = Some (mk_date 2020 3 19)"
  by (simp add: date_eval)
lemma parse_2020_06_19: "strptime_ymd ''2020-06-19'' = Some (mk_date 2020 6 19)"
  by (simp add: date_eval)

lemma add_2021_06_15:
  "add_timedelta (mk_date 2021 6 15) 7 = Inr (mk_date 2021 6 22)"
  "add_relativedelta (mk_date 2021 6 15) 4 = Inr (mk_date 2021 10 15)"
  "add_relativedelta (mk_date 2021 6 15) (Suc 0) = Inr (mk_date 2021 7 15)"
  by (simp_all add: date_eval)

lemma add_boundary:
  "add_timedelta (mk_date 2020 8 12) 7 = Inr (mk_date 2020 8 19)"
  "add_relativedelta (mk_date 2020 4 19) 4 = Inr (mk_date 2020 8 19)"
  "add_relativedelta (mk_date 2020 7 19) (Suc 0) = Inr (mk_date 2020 8 19)"
  by (simp_all add: date_eval)

lemma add_past:
  "add_timedelta (mk_date 2020 8 11) 7 = Inr (mk_date 2020 8 18)"
  "add_relativedelta (mk_date 2020 3 19) 4 = Inr (mk_date 2020 7 19)"
  "add_relativedelta (mk_date 2020 6 19) (Suc 0) = Inr (mk_date 2020 7 19)"
  by (simp_all add: date_eval)

lemma less_eval:
  "date_less (mk_date 2021 6 22) (mk_date 2021 6 15) = False"
  "date_less (mk_date 2021 10 15) (mk_date 2021 6 15) = False"
  "date_less (mk_date 2021 7 15) (mk_date 2021 6 15) = False"
  "date_less (mk_date 2020 8 19) (mk_date 2020 8 19) = False"
  "date_less (mk_date 2020 8 18) (mk_date 2020 8 19) = True"
  "date_less (mk_date 2020 7 19) (mk_date 2020 8 19) = True"
  by (simp_all add: date_less_def mk_date_def)

lemmas cal_eval = thresh_names thresh_keys less_eval report_def
  parse_2021_06_15 parse_2020_08_12 parse_2020_04_19 parse_2020_07_19 parse_2020_08_11
  parse_2020_03_19 parse_2020_06_19 add_2021_06_15 add_boundary add_past

subsection \<open>The calibration freshness check\<close>

text \<open>
  Claim C1, at a store whose five dates are today's date: every calibration is inside
  its window, yet the function logs all five as outdated and returns \<open>False\<close>. The
  entry \<open>out[k]\<close> is \<^verbatim>\<open>date + thresh < today\<close>, true when the window has passed, and the
  function returns \<^verbatim>\<open>all(out.values())\<close>.
\<close>

theorem calibration_dates_ok_fresh_dates:
  "calibration_dates_ok strptime_ymd (mk_date 2021 6 15)
     (Inr (dated_store (PStr ''2021-06-15'') (PStr ''2021-06-15'') (PStr ''2021-06-15'')
             (PStr ''2021-06-15'') (PStr ''2021-06-15'')))
   = Inr (False,
          [Outdated_calibrations
             [''F2TTL_CALIBRATION_DATE'', ''SCREEN_FREQ_TEST_DATE'', ''SCREEN_LUX_DATE'',
              ''WATER_CALIBRATION_DATE'', ''BPOD_TTL_TEST_DATE'']])"
  unfolding calibration_dates_ok_def dated_store_grep
  by (simp add: cal_eval)

text \<open>
  Claim C4, at the boundary and past it, with today the 19th of August 2020. When each date
  plus its window is today exactly, all five subsystems are logged as outdated and the
  result is \<open>False\<close>; when each date plus its window was yesterday (F2TTL) or a month
  ago (the others), nothing is logged and the result is \<open>True\<close>.
\<close>

theorem calibration_dates_ok_boundary:
  "calibration_dates_ok strptime_ymd (mk_date 2020 8 19)
     (Inr (dated_store (PStr ''2020-08-12'') (PStr ''2020-04-19'') (PStr ''2020-04-19'')
             (PStr ''2020-07-19'') (PStr ''2020-04-19'')))
   = Inr (False,
          [Outdated_calibrations
             [''F2TTL_CALIBRATION_DATE'', ''SCREEN_FREQ_TEST_DATE'', ''SCREEN_LUX_DATE'',
              ''WATER_CALIBRATION_DATE'', ''BPOD_TTL_TEST_DATE'']])
   \<and> calibration_dates_ok strptime_ymd (mk_date 2020 8 19)
     (Inr (dated_store (PStr ''2020-08-11'') (PStr ''2020-03-19'') (PStr ''2020-03-19'')
             (PStr ''2020-06-19'') (PStr ''2020-03-19'')))
   = Inr (True, [])"
  unfolding calibration_dates_ok_def dated_store_grep
  by (simp add: cal_eval)

lemma five_keys_not_single:
  assumes "set (map fst ms) = set (map fst thresh)"
  shows "length ms \<noteq> 1"
proof -
  have "distinct (map fst thresh)" by (simp add: thresh_names)
  then have "card (set (map fst thresh)) = 5"
    by (simp add: distinct_card thresh_names)
  with assms have "card (set (map fst ms)) = 5" by simp
  moreover have "card (set (map fst ms)) \<le> length ms"
    using card_length [of "map fst ms"] by simp
  ultimately show ?thesis by linarith
qed

lemma single_key_not_five: "length ms = 1 \<Longrightarrow> set (map fst ms) \<noteq> set (map fst thresh)"
  using five_keys_not_single by blast

lemma report_all_None:
  assumes "ms \<noteq> []"
  shows "report ws (map (\<lambda>kv. (fst kv, None)) ms)
           = (False, ws @ [Outdated_calibrations (map fst ms)])"
proof -
  have "\<not> list_all (\<lambda>kv. snd kv = Some True) (map (\<lambda>kv. (fst kv, None :: bool option)) ms)"
    using assms by (cases ms) simp_all
  moreover have
    "filter (\<lambda>kv. snd kv \<noteq> Some True) (map (\<lambda>kv. (fst kv, None :: bool option)) ms)
       = map (\<lambda>kv. (fst kv, None)) ms"
    by (induction ms) simp_all
  ultimately show ?thesis by (simp add: report_def comp_def)
qed

lemma calibration_dates_ok_load_error:
  "calibration_dates_ok strptime today (Inl e) = Inl e"
  by (simp add: calibration_dates_ok_def grep_param_dict_def)

text \<open>
  Claim C5. Take a store whose keys containing \<^verbatim>\<open>DATE\<close> are the five calibration keys
  (what the assertion of the function requires), and let one of the five values be
  falsy. Then \<^verbatim>\<open>calibration_dates_ok\<close> returns \<open>False\<close>, whatever the other values,
  today's date and the parser are: the result is the same for a parser that would raise
  on every string, so no date is parsed.
\<close>

theorem calibration_dates_ok_missing_value:
  assumes "ms = filter (\<lambda>kv. sublist ''DATE'' (fst kv)) pd"
      and "set (map fst ms) = set (map fst thresh)"
      and "\<exists>kv \<in> set ms. \<not> truthy (snd kv)"
  shows "calibration_dates_ok strptime today (Inr pd)
           = Inr (False, [Not_all_dates_present, Outdated_calibrations (map fst ms)])"
proof -
  have len: "length ms \<noteq> 1" using assms(2) by (rule five_keys_not_single)
  then have grep: "grep_param_dict (Inr pd) ''DATE'' = Inr (GDict ms)"
    using assms(1) by (simp add: grep_param_dict_def)
  have ne: "ms \<noteq> []" using assms(3) by auto
  have falsy: "\<not> list_all (\<lambda>kv. truthy (snd kv)) ms"
    using assms(3) by (auto simp: list_all_iff)
  show ?thesis
    unfolding calibration_dates_ok_def grep
    using assms(2) falsy report_all_None [OF ne, of "[Not_all_dates_present]"]
    by simp
qed

theorem calibration_dates_ok_missing_value_witness:
  "calibration_dates_ok (\<lambda>s. None) (mk_date 2021 6 15)
     (Inr (dated_store (PStr ''2021-06-15'') (PStr ''not a date'') (PStr ''2021-06-15'')
             PNone (PStr [])))
   = Inr (False,
          [Not_all_dates_present,
           Outdated_calibrations
             [''F2TTL_CALIBRATION_DATE'', ''SCREEN_FREQ_TEST_DATE'', ''SCREEN_LUX_DATE'',
              ''WATER_CALIBRATION_DATE'', ''BPOD_TTL_TEST_DATE'']])"
  using calibration_dates_ok_missing_value
          [OF dated_store_DATE [symmetric], of "PStr ''2021-06-15''" "PStr ''not a date''"
             "PStr ''2021-06-15''" PNone "PStr []" "\<lambda>s. None" "mk_date 2021 6 15"]
  by (simp add: thresh_names)

text \<open>
  Claim C9, as stated, at a store with a single key that contains \<^verbatim>\<open>DATE\<close>: the keys
  are not the five expected ones, and the function raises \<^verbatim>\<open>AttributeError\<close>, not an
  assertion failure (\<^verbatim>\<open>_grep_param_dict\<close> has returned the bare string, which has no
  \<^verbatim>\<open>keys\<close>).
\<close>

theorem calibration_dates_ok_single_key_counterexample:
  "set (map fst (filter (\<lambda>kv. sublist ''DATE'' (fst kv)) one_date_store))
     \<noteq> set (map fst thresh)
   \<and> calibration_dates_ok strptime_ymd (mk_date 2021 6 15) (Inr one_date_store)
       = Inl AttributeError
   \<and> calibration_dates_ok strptime_ymd (mk_date 2021 6 15) (Inr one_date_store)
       \<noteq> Inl AssertionError"
proof -
  have "length (filter (\<lambda>kv. sublist ''DATE'' (fst kv)) one_date_store) = 1"
    by (simp add: one_date_store_DATE)
  then have "set (map fst (filter (\<lambda>kv. sublist ''DATE'' (fst kv)) one_date_store))
     \<noteq> set (map fst thresh)"
    by (rule single_key_not_five)
  moreover have "calibration_dates_ok strptime_ymd (mk_date 2021 6 15) (Inr one_date_store)
       = Inl AttributeError"
    by (simp add: calibration_dates_ok_def grep_param_dict_def one_date_store_DATE)
  ultimately show ?thesis by simp
qed

text \<open>
  Claim C9, amended. For every store whose set of keys containing \<^verbatim>\<open>DATE\<close> is not
  the set of the five expected keys, \<^verbatim>\<open>calibration_dates_ok\<close> raises instead of
  returning a boolean: an assertion failure when the number of such keys is not one;
  when there is exactly one, \<^verbatim>\<open>AttributeError\<close> if its value is a string and
  \<^verbatim>\<open>TypeError\<close> if it is \<^verbatim>\<open>None\<close>. So a boolean is returned only for a store with
  exactly the five date keys.
\<close>

theorem calibration_dates_ok_wrong_keys:
  assumes "ms = filter (\<lambda>kv. sublist ''DATE'' (fst kv)) pd"
      and "set (map fst ms) \<noteq> set (map fst thresh)"
  shows "(length ms \<noteq> 1 \<longrightarrow> calibration_dates_ok strptime today (Inr pd) = Inl AssertionError)
       \<and> (\<forall>k s. ms = [(k, PStr s)] \<longrightarrow>
             calibration_dates_ok strptime today (Inr pd) = Inl AttributeError)
       \<and> (\<forall>k. ms = [(k, PNone)] \<longrightarrow>
             calibration_dates_ok strptime today (Inr pd) = Inl TypeError)
       \<and> (\<forall>r. calibration_dates_ok strptime today (Inr pd) \<noteq> Inr r)"
proof -
  have neq: "set (map fst thresh) \<noteq> set (map fst ms)"
    using assms(2) by (rule not_sym)
  have many: "calibration_dates_ok strptime today (Inr pd) = Inl AssertionError"
    if "length ms \<noteq> 1"
  proof -
    have "grep_param_dict (Inr pd) ''DATE'' = Inr (GDict ms)"
      using that assms(1) by (simp add: grep_param_dict_def)
    then show ?thesis
      unfolding calibration_dates_ok_def using neq by simp
  qed
  have str: "calibration_dates_ok strptime today (Inr pd) = Inl AttributeError"
    if "ms = [(k, PStr s)]" for k s
    using that assms(1) by (simp add: calibration_dates_ok_def grep_param_dict_def)
  have none: "calibration_dates_ok strptime today (Inr pd) = Inl TypeError"
    if "ms = [(k, PNone)]" for k
    using that assms(1) by (simp add: calibration_dates_ok_def grep_param_dict_def)
  have never: "calibration_dates_ok strptime today (Inr pd) \<noteq> Inr r" for r
  proof (cases "length ms = 1")
    case False
    then show ?thesis using many by simp
  next
    case True
    then obtain k v where "ms = [(k, v)]"
      by (cases ms) auto
    then show ?thesis using str none by (cases v) auto
  qed
  show ?thesis using many str none never by blast
qed

theorem calibration_dates_ok_wrong_keys_witness:
  "calibration_dates_ok strptime_ymd (mk_date 2021 6 15) (Inr example_store)
     = Inl AssertionError
   \<and> calibration_dates_ok strptime_ymd (mk_date 2021 6 15) (Inr one_date_store)
     = Inl AttributeError"
proof -
  have a: "set (map fst ([] :: pardict)) \<noteq> set (map fst thresh)"
    by (simp add: thresh_names)
  have b: "set (map fst [(''F2TTL_CALIBRATION_DATE'', PStr ''2021-06-15'')])
             \<noteq> set (map fst thresh)"
    by (rule single_key_not_five) simp
  show ?thesis
    using calibration_dates_ok_wrong_keys [OF example_store_DATE [symmetric] a,
            of strptime_ymd "mk_date 2021 6 15"]
          calibration_dates_ok_wrong_keys [OF one_date_store_DATE [symmetric] b,
            of strptime_ymd "mk_date 2021 6 15"]
    by simp
qed

subsection \<open>The three-bit status of \<^verbatim>\<open>alyx_server_rig_ok\<close>\<close>




lemma rig_store_all: "grep_param_dict (Inr rig_store) [] = Inr (GDict rig_store)"
  by (simp add: grep_param_dict_def rig_store_def)

lemma rig_store_items:
  "getitem (GDict rig_store) ''COM_BPOD'' = Inr (PStr ''COM3'')"
  "getitem (GDict rig_store) ''COM_F2TTL'' = Inr (PStr ''COM4'')"
  "getitem (GDict rig_store) ''COM_ROTARY_ENCODER'' = Inr (PStr ''COM5'')"
  "getitem (GDict rig_store) ''DATA_FOLDER_LOCAL'' = Inr (PStr ''C:/iblrig_data'')"
  "getitem (GDict rig_store) ''DATA_FOLDER_REMOTE'' = Inr (PStr ''Y:/'')"
  by (simp_all add: rig_store_def)




subsection \<open>Probes and exceptions\<close>














subsection \<open>Probes and device handles\<close>

lemma rotary_handle:
  "grep_param_dict load [] = Inr pars \<Longrightarrow> getitem pars ''COM_ROTARY_ENCODER'' = Inr port
     \<Longrightarrow> re_open port = None
     \<Longrightarrow> snd (rotary_encoder_ok load re_open sz re_close)
           = (if sz = None \<and> re_close = None then Handle_closed else Handle_open)"
  by (auto simp: rotary_encoder_ok_def rotary_encoder_body_def split: option.splits)

lemma bpod_handle:
  "grep_param_dict load [] = Inr pars \<Longrightarrow> getitem pars ''COM_BPOD'' = Inr port
     \<Longrightarrow> s_open port = None
     \<Longrightarrow> snd (bpod_ok load s_open w0 w1 s_close)
           = (if w0 = None \<and> w1 = None \<and> s_close = None then Handle_closed else Handle_open)"
  by (auto simp: bpod_ok_def bpod_body_def split: option.splits)

lemma f2ttl_handle:
  "grep_param_dict load [] = Inr pars \<Longrightarrow> getitem pars ''COM_F2TTL'' = Inr port
     \<Longrightarrow> f_open port = None
     \<Longrightarrow> snd (f2ttl_ok load f_open is_open f_close)
           = (if (\<exists>b. is_open = Inr b) \<and> f_close = None then Handle_closed else Handle_open)"
  by (auto simp: f2ttl_ok_def split: option.splits sum.splits)

lemma bpod_modules_handle:
  "ephys_rig load = Inr ephys \<Longrightarrow> grep_param_dict load ''COM_BPOD'' = Inr comport
     \<Longrightarrow> b_open comport = None
     \<Longrightarrow> snd (bpod_modules_ok load b_open mods b_close)
           = (if (\<exists>m. mods = Inr m) \<and> b_close = None then Handle_closed else Handle_open)"
  by (auto simp: bpod_modules_ok_def bpod_modules_body_def split: option.splits sum.splits)

text \<open>
  Claim C8, as stated, at \<^verbatim>\<open>rotary_encoder_ok\<close> on the exception path: the encoder
  opens, \<^verbatim>\<open>set_zero_position()\<close> raises, and the probe returns \<open>False\<close> with the
  handle still open, since \<^verbatim>\<open>m.close()\<close> is a statement of the \<^verbatim>\<open>try\<close> body.
\<close>

theorem rotary_encoder_ok_handle_left_open_counterexample:
  "rotary_encoder_ok (Inr rig_store) (\<lambda>p. None) (Some (OtherError ''no answer'')) None
     = (Inr False, Handle_open)"
  by (simp add: rotary_encoder_ok_def rotary_encoder_body_def rig_store_all rig_store_items
        del: getitem.simps)

text \<open>
  Claim C8, amended. Once a probe has opened its device handle (rotary encoder, Bpod
  serial port, Frame2TTL, Bpod module listing), it returns with the handle closed when
  no later call raises, and with the handle still open when a later call raises.
\<close>

theorem probes_close_handle_when_no_call_raises:
  "(\<forall>pars port.
       grep_param_dict load [] = Inr pars \<and> getitem pars ''COM_ROTARY_ENCODER'' = Inr port
       \<and> re_open port = None
       \<longrightarrow> snd (rotary_encoder_ok load re_open sz re_close)
             = (if sz = None \<and> re_close = None then Handle_closed else Handle_open))
   \<and> (\<forall>pars port.
       grep_param_dict load [] = Inr pars \<and> getitem pars ''COM_BPOD'' = Inr port
       \<and> s_open port = None
       \<longrightarrow> snd (bpod_ok load s_open w0 w1 s_close)
             = (if w0 = None \<and> w1 = None \<and> s_close = None
                then Handle_closed else Handle_open))
   \<and> (\<forall>pars port.
       grep_param_dict load [] = Inr pars \<and> getitem pars ''COM_F2TTL'' = Inr port
       \<and> f_open port = None
       \<longrightarrow> snd (f2ttl_ok load f_open is_open f_close)
             = (if (\<exists>b. is_open = Inr b) \<and> f_close = None
                then Handle_closed else Handle_open))
   \<and> (\<forall>ephys comport.
       ephys_rig load = Inr ephys \<and> grep_param_dict load ''COM_BPOD'' = Inr comport
       \<and> b_open comport = None
       \<longrightarrow> snd (bpod_modules_ok load b_open mods b_close)
             = (if (\<exists>m. mods = Inr m) \<and> b_close = None
                then Handle_closed else Handle_open))"
  using rotary_handle [of load _ _ re_open sz re_close]
        bpod_handle [of load _ _ s_open w0 w1 s_close]
        f2ttl_handle [of load _ _ f_open is_open f_close]
        bpod_modules_handle [of load _ _ b_open mods b_close]
  by blast

theorem probes_close_handle_when_no_call_raises_witness:
  "snd (rotary_encoder_ok (Inr rig_store) (\<lambda>p. None) None None) = Handle_closed
   \<and> snd (bpod_ok (Inr rig_store) (\<lambda>p. None) None None None) = Handle_closed
   \<and> snd (f2ttl_ok (Inr rig_store) (\<lambda>p. None) (Inr True) None) = Handle_closed
   \<and> snd (f2ttl_ok (Inr rig_store) (\<lambda>p. None) (Inl (OtherError ''port lost'')) None)
       = Handle_open"
  using probes_close_handle_when_no_call_raises
          [where load = "Inr rig_store"
             and re_open = "\<lambda>p. None" and sz = None and re_close = None
             and s_open = "\<lambda>p. None" and ?w0.0 = None and ?w1.0 = None and s_close = None
             and f_open = "\<lambda>p. None" and is_open = "Inr True" and f_close = None
             and b_open = "\<lambda>r. None" and mods = "Inr []" and b_close = None]
        probes_close_handle_when_no_call_raises
          [where load = "Inr rig_store"
             and re_open = "\<lambda>p. None" and sz = None and re_close = None
             and s_open = "\<lambda>p. None" and ?w0.0 = None and ?w1.0 = None and s_close = None
             and f_open = "\<lambda>p. None" and is_open = "Inl (OtherError ''port lost'')"
             and f_close = None
             and b_open = "\<lambda>r. None" and mods = "Inr []" and b_close = None]
  by (auto simp: rig_store_all rig_store_items simp del: getitem.simps)

subsection \<open>The installer's prompts\<close>




lemma get_env_folder_frame [simp]:
  "get_env_folder raises n (w\<lparr>stdin := s, asked := k\<rparr>) = get_env_folder raises n w"
  "get_env_folder raises n (w\<lparr>ran := r\<rparr>) = get_env_folder raises n w"
  by (simp_all add: get_env_folder_def split: option.splits)










subsection \<open>The installer's error policy\<close>







end
